theory Spec2Isabelle
  imports Complex_Main "HOL-Library.AList"
begin

section \<open>Data model\<close>

text \<open>
  The script \<open>app.py\<close> works on a road network held in a networkx \<open>DiGraph\<close>: nodes keyed
  by an integer id, each with an attribute dictionary (\<open>'y'\<close> latitude, \<open>'x'\<close> longitude), and
  directed edges keyed by the ordered pair of their end points, each with an attribute
  dictionary (\<open>'length'\<close> in metres, among others).

  Attribute values are Python objects. The code only ever adds them up, so a value is
  either a number (\<open>PyNum\<close>; Python's int, float and bool, idealised as a real number) or
  some other object (\<open>PyOther\<close>, carrying its text), on which \<open>+\<close> with a number raises
  \<open>TypeError\<close>.
\<close>

type_synonym node = int

datatype pyval = PyNum real | PyOther string

type_synonym attrs = "string \<rightharpoonup> pyval"

text \<open>
  Both dictionaries of the graph are kept as association lists in insertion order, looked
  up with \<open>map_of\<close>, written with \<open>AList.update\<close> (replace in place, or append).
\<close>

record digraph =
  nodes :: "(node \<times> attrs) list"
  adj :: "((node \<times> node) \<times> attrs) list"

text \<open>The exceptions (all subclasses of Python's \<open>Exception\<close>) that the code can meet.\<close>

datatype exn =
    AttributeError
  | TypeError
  | KeyError
  | ZeroDivisionError
  | NetworkXNoPath
  | IndexError
  | NodeNotFound
  | OtherException

section \<open>Distance aggregator: \<open>get_route_length_km\<close>\<close>

text \<open>
  \<open>G.get_edge_data(u, v, default)\<close> returns the attribute dictionary of the edge \<open>u \<rightarrow> v\<close>,
  or \<open>default\<close> when there is no such edge. The result is therefore either a dictionary or
  whatever object was passed as the default.
\<close>

datatype edge_data = EdgeAttrs attrs | DefaultObj pyval

definition get_edge_data :: "digraph \<Rightarrow> node \<Rightarrow> node \<Rightarrow> pyval \<Rightarrow> edge_data" where
  "get_edge_data G u v dflt =
     (case map_of (adj G) (u, v) of
        Some d \<Rightarrow> EdgeAttrs d
      | None \<Rightarrow> DefaultObj dflt)"

text \<open>
  \<open>edge_data.get(key, default)\<close>: a dictionary answers with the value or the default; any
  other object (here: the integer \<open>0\<close>) has no method \<open>get\<close>, which is an \<open>AttributeError\<close>.
\<close>

definition attr_get :: "edge_data \<Rightarrow> string \<Rightarrow> pyval \<Rightarrow> exn + pyval" where
  "attr_get ed key dflt =
     (case ed of
        EdgeAttrs d \<Rightarrow> Inr (case d key of Some v \<Rightarrow> v | None \<Rightarrow> dflt)
      | DefaultObj _ \<Rightarrow> Inl AttributeError)"

text \<open>\<open>length += v\<close> for the numeric accumulator (called \<open>metres\<close> here).\<close>

definition py_add :: "real \<Rightarrow> pyval \<Rightarrow> exn + real" where
  "py_add metres v = (case v of PyNum x \<Rightarrow> Inr (metres + x) | PyOther _ \<Rightarrow> Inl TypeError)"

text \<open>
  The loop \<open>for i in range(len(route) - 1)\<close> visits the consecutive pairs
  \<open>(route[i], route[i+1])\<close> from left to right; a route of fewer than two nodes has none.
  The accumulator is the running sum in metres.
\<close>

fun sum_edge_lengths :: "digraph \<Rightarrow> node list \<Rightarrow> real \<Rightarrow> exn + real" where
  "sum_edge_lengths G (u # v # rest) metres =
     (case attr_get (get_edge_data G u v (PyNum 0)) ''length'' (PyNum 0) of
        Inl e \<Rightarrow> Inl e
      | Inr x \<Rightarrow>
          (case py_add metres x of
             Inl e \<Rightarrow> Inl e
           | Inr metres' \<Rightarrow> sum_edge_lengths G (v # rest) metres'))"
| "sum_edge_lengths G route metres = Inr metres"

definition get_route_length_km :: "digraph \<Rightarrow> node list \<Rightarrow> exn + real" where
  "get_route_length_km G route =
     (case sum_edge_lengths G route 0 of
        Inl e \<Rightarrow> Inl e
      | Inr metres \<Rightarrow> Inr (metres / 1000))"

subsection \<open>Predicates on routes\<close>

text \<open>The Route invariant of the data model: every consecutive pair is an edge of the graph.\<close>

fun is_route :: "digraph \<Rightarrow> node list \<Rightarrow> bool" where
  "is_route G (u # v # rest) = (map_of (adj G) (u, v) \<noteq> None \<and> is_route G (v # rest))"
| "is_route G route = True"

text \<open>The length an edge contributes: its \<open>'length'\<close> attribute, or \<open>0\<close> when it has none.\<close>

definition edge_length :: "attrs \<Rightarrow> pyval" where
  "edge_length d = (case d ''length'' of Some v \<Rightarrow> v | None \<Rightarrow> PyNum 0)"

text \<open>
  \<open>lengths_satisfy P G route\<close>: every edge that the route traverses contributes a number
  that satisfies \<open>P\<close>. Pairs that are not edges are not constrained.
\<close>

fun lengths_satisfy :: "(real \<Rightarrow> bool) \<Rightarrow> digraph \<Rightarrow> node list \<Rightarrow> bool" where
  "lengths_satisfy P G (u # v # rest) =
     ((case map_of (adj G) (u, v) of
         None \<Rightarrow> True
       | Some d \<Rightarrow> (case edge_length d of PyNum x \<Rightarrow> P x | PyOther _ \<Rightarrow> False))
      \<and> lengths_satisfy P G (v # rest))"
| "lengths_satisfy P G route = True"

text \<open>The metres along a route whose pairs are all edges with numeric lengths.\<close>

fun route_metres :: "digraph \<Rightarrow> node list \<Rightarrow> real" where
  "route_metres G (u # v # rest) =
     (case map_of (adj G) (u, v) of
        Some d \<Rightarrow> (case edge_length d of PyNum x \<Rightarrow> x | PyOther _ \<Rightarrow> 0)
      | None \<Rightarrow> 0) + route_metres G (v # rest)"
| "route_metres G route = 0"

section \<open>Graph provider: \<open>load_dehradun_graph\<close>\<close>

text \<open>
  \<open>ox.graph_from_place\<close> yields a networkx \<open>MultiDiGraph\<close>: between an ordered pair of nodes
  there may be several parallel edges, told apart by a key. The edges are listed as
  \<open>(u, v, key, data)\<close> in the order in which the adjacency structure is iterated.
\<close>

record multidigraph =
  m_nodes :: "(node \<times> attrs) list"
  m_edges :: "(node \<times> node \<times> int \<times> attrs) list"

text \<open>
  \<open>nx.DiGraph(G)\<close> on a multigraph adds the triples \<open>(u, v, data)\<close> one after the other to
  an empty \<open>DiGraph\<close>. Adding an edge fetches the attribute dictionary already stored for
  \<open>(u, v)\<close> (an empty one if there is none), updates it with \<open>data\<close>, and stores it under
  \<open>(u, v)\<close>. The nodes keep their attributes.
\<close>

fun add_edge ::
  "((node \<times> node) \<times> attrs) list \<Rightarrow> node \<times> node \<times> int \<times> attrs \<Rightarrow> ((node \<times> node) \<times> attrs) list"
where
  "add_edge al (u, v, key, dd) =
     AList.update (u, v)
       ((case map_of al (u, v) of None \<Rightarrow> Map.empty | Some datadict \<Rightarrow> datadict) ++ dd) al"

definition DiGraph :: "multidigraph \<Rightarrow> digraph" where
  "DiGraph M = \<lparr>nodes = m_nodes M, adj = foldl add_edge [] (m_edges M)\<rparr>"

section \<open>Map view and user interface\<close>

text \<open>
  A folium map is its centre, its zoom level and the elements added to it, in order. A
  coordinate is the pair \<open>(G.nodes[n]['y'], G.nodes[n]['x'])\<close> as Python holds it.
\<close>

type_synonym coord = "pyval \<times> pyval"

datatype element =
    PolyLine "coord list" string nat real
  | Marker coord string string

record folium_map =
  location :: "real \<times> real"
  zoom_start :: nat
  children :: "element list"

text \<open>
  What a run of the script puts on the page, in order. \<open>DistanceReadout d\<close> stands for the
  line \<open>**Distance:** d km\<close> with \<open>d\<close> printed to two decimals.
\<close>

datatype event =
    Title string
  | ErrorMsg string
  | WarningMsg string
  | Selectbox string "string list" nat
  | Button string
  | Subheader string
  | FoliumStatic folium_map nat nat
  | DistanceReadout real

text \<open>
  A run ends by reaching the end of \<open>main\<close>, by \<open>st.stop()\<close>, or by an exception that
  nothing catches.
\<close>

datatype outcome = Finished | Stopped | Raised exn

text \<open>
  The body of the \<open>try\<close> in \<open>load_dehradun_graph\<close> either raises an exception, of which the
  handler only uses the text \<open>str(e)\<close>, or yields the raw multigraph. The function returns
  its value together with what it printed.
\<close>

definition load_dehradun_graph :: "string + multidigraph \<Rightarrow> digraph option \<times> event list" where
  "load_dehradun_graph fetched =
     (case fetched of
        Inr G \<Rightarrow> (Some (DiGraph G), [])
      | Inl e \<Rightarrow> (None, [ErrorMsg (''Error loading map data: '' @ e)]))"

section \<open>Route finder: \<open>get_shortest_route\<close>\<close>

text \<open>
  \<open>nx.shortest_path(G, origin, destination, weight='length')\<close> is a call into networkx; it
  is a parameter of the model. Only \<open>NetworkXNoPath\<close> is caught; any other exception
  leaves the function.
\<close>

type_synonym path_finder = "digraph \<Rightarrow> node \<Rightarrow> node \<Rightarrow> exn + node list"

definition get_shortest_route ::
  "path_finder \<Rightarrow> digraph \<Rightarrow> node \<Rightarrow> node \<Rightarrow> (exn + node list option) \<times> event list"
where
  "get_shortest_route nx_shortest_path G origin_node destination_node =
     (case nx_shortest_path G origin_node destination_node of
        Inr route \<Rightarrow> (Inr (Some route), [])
      | Inl NetworkXNoPath \<Rightarrow>
          (Inr None, [ErrorMsg ''No path exists between these locations.''])
      | Inl e \<Rightarrow> (Inl e, []))"

section \<open>Map renderer: \<open>create_route_map\<close>\<close>

text \<open>\<open>(G.nodes[node]['y'], G.nodes[node]['x'])\<close>: each of the three lookups may miss.\<close>

definition node_coords :: "digraph \<Rightarrow> node \<Rightarrow> exn + coord" where
  "node_coords G n =
     (case map_of (nodes G) n of
        None \<Rightarrow> Inl KeyError
      | Some a \<Rightarrow>
          (case a ''y'' of
             None \<Rightarrow> Inl KeyError
           | Some y \<Rightarrow>
               (case a ''x'' of
                  None \<Rightarrow> Inl KeyError
                | Some x \<Rightarrow> Inr (y, x))))"

text \<open>The list comprehension over the route, left to right.\<close>

fun route_coords_of :: "digraph \<Rightarrow> node list \<Rightarrow> exn + coord list" where
  "route_coords_of G [] = Inr []"
| "route_coords_of G (n # ns) =
     (case node_coords G n of
        Inl e \<Rightarrow> Inl e
      | Inr c \<Rightarrow>
          (case route_coords_of G ns of
             Inl e \<Rightarrow> Inl e
           | Inr cs \<Rightarrow> Inr (c # cs)))"

text \<open>Python's \<open>sum\<close>: start at \<open>0\<close> and add the items from left to right.\<close>

fun py_sum_from :: "real \<Rightarrow> pyval list \<Rightarrow> exn + real" where
  "py_sum_from acc [] = Inr acc"
| "py_sum_from acc (v # vs) =
     (case py_add acc v of
        Inl e \<Rightarrow> Inl e
      | Inr acc' \<Rightarrow> py_sum_from acc' vs)"

definition py_sum :: "pyval list \<Rightarrow> exn + real" where
  "py_sum vs = py_sum_from 0 vs"

text \<open>\<open>s / len(xs)\<close>: true division, which raises on a zero divisor.\<close>

definition py_div_len :: "real \<Rightarrow> nat \<Rightarrow> exn + real" where
  "py_div_len s n = (if n = 0 then Inl ZeroDivisionError else Inr (s / real n))"

definition create_route_map ::
  "digraph \<Rightarrow> node list \<Rightarrow> string \<Rightarrow> string \<Rightarrow> exn + folium_map"
where
  "create_route_map G route start_name end_name =
     (case route_coords_of G route of
        Inl e \<Rightarrow> Inl e
      | Inr route_coords \<Rightarrow>
     (case py_sum (map fst route_coords) of
        Inl e \<Rightarrow> Inl e
      | Inr lat_sum \<Rightarrow>
     (case py_div_len lat_sum (length route_coords) of
        Inl e \<Rightarrow> Inl e
      | Inr center_lat \<Rightarrow>
     (case py_sum (map snd route_coords) of
        Inl e \<Rightarrow> Inl e
      | Inr lon_sum \<Rightarrow>
     (case py_div_len lon_sum (length route_coords) of
        Inl e \<Rightarrow> Inl e
      | Inr center_lon \<Rightarrow>
     (case route_coords of
        [] \<Rightarrow> Inl IndexError
      | c # cs \<Rightarrow>
          Inr \<lparr>location = (center_lat, center_lon),
               zoom_start = 13,
               children =
                 [PolyLine route_coords ''blue'' 6 0.7,
                  Marker c (''Start: '' @ start_name) ''green'',
                  Marker (last route_coords) (''End: '' @ end_name) ''red'']\<rparr>))))))"

section \<open>Location catalog and orchestrator\<close>

definition get_locations :: "(string \<times> real \<times> real) list" where
  "get_locations =
     [(''Clock Tower'', (30.3253, 78.0413)),
      (''ISBT'', (30.2881, 78.0428)),
      (''Rajpur Road'', (30.3440, 78.0689)),
      (''Pacific Mall'', (30.3387, 78.0554)),
      (''Forest Research Institute'', (30.3417, 77.9996)),
      (''Robber's Cave'', (30.3752, 78.0689)),
      (''Sahastradhara'', (30.3879, 78.1231)),
      (''Mussoorie Road'', (30.4059, 78.0300)),
      (''Buddha Temple'', (30.3358, 78.0433)),
      (''Paltan Bazaar'', (30.3218, 78.0440))]"

text \<open>The title starts with the car emoji U+1F697, written here as its four UTF-8 bytes.\<close>

definition title_text :: string where
  "title_text = [CHR 0xF0, CHR 0x9F, CHR 0x9A, CHR 0x97] @ '' Dehradun Shortest Route Finder''"

text \<open>
  Everything a run of \<open>main\<close> takes from outside: the outcome of fetching the raw graph,
  what the two select boxes return, whether the button was pressed in this run, and the
  two library calls \<open>ox.distance.nearest_nodes(G, X, Y)\<close> and \<open>nx.shortest_path\<close>.
\<close>

record env =
  graph_from_place :: "string + multidigraph"
  start_choice :: string
  end_choice :: string
  button_clicked :: bool
  nearest_nodes :: "digraph \<Rightarrow> real \<Rightarrow> real \<Rightarrow> exn + node"
  shortest_path :: path_finder

text \<open>The part of \<open>main\<close> under \<open>if st.button(...)\<close>; \<open>ui\<close> is the page so far.\<close>

definition find_and_show ::
  "env \<Rightarrow> digraph \<Rightarrow> string \<Rightarrow> string \<Rightarrow> event list \<Rightarrow> event list \<times> outcome"
where
  "find_and_show env G start_location end_location ui =
     (case map_of get_locations start_location of
        None \<Rightarrow> (ui, Raised KeyError)
      | Some start_coords \<Rightarrow>
     (case map_of get_locations end_location of
        None \<Rightarrow> (ui, Raised KeyError)
      | Some end_coords \<Rightarrow>
     (case nearest_nodes env G (snd start_coords) (fst start_coords) of
        Inl e \<Rightarrow> (ui, Raised e)
      | Inr origin_node \<Rightarrow>
     (case nearest_nodes env G (snd end_coords) (fst end_coords) of
        Inl e \<Rightarrow> (ui, Raised e)
      | Inr destination_node \<Rightarrow>
     (case get_shortest_route (shortest_path env) G origin_node destination_node of
        (Inl e, printed) \<Rightarrow> (ui @ printed, Raised e)
      | (Inr None, printed) \<Rightarrow> (ui @ printed @ [ErrorMsg ''No route found.''], Stopped)
      | (Inr (Some route), printed) \<Rightarrow>
     (case get_route_length_km G route of
        Inl e \<Rightarrow> (ui @ printed, Raised e)
      | Inr distance_km \<Rightarrow>
     (case create_route_map G route start_location end_location of
        Inl e \<Rightarrow> (ui @ printed, Raised e)
      | Inr route_map \<Rightarrow>
          (ui @ printed @
             [Subheader (''Shortest Route from '' @ start_location @ '' to '' @ end_location),
              FoliumStatic route_map 800 500,
              DistanceReadout distance_km],
           Finished))))))))"

definition main :: "env \<Rightarrow> event list \<times> outcome" where
  "main env =
     (case load_dehradun_graph (graph_from_place env) of
        (None, printed) \<Rightarrow> ([Title title_text] @ printed, Stopped)
      | (Some G, printed) \<Rightarrow>
          (let locations = get_locations;
               location_names = map fst locations;
               ui = [Title title_text] @ printed @
                    [Selectbox ''Select start location:'' location_names 0,
                     Selectbox ''Select destination:'' location_names 1];
               start_location = start_choice env;
               end_location = end_choice env
           in if start_location = end_location
              then (ui @ [WarningMsg ''Start and destination must be different.''], Stopped)
              else if button_clicked env
              then find_and_show env G start_location end_location
                     (ui @ [Button ''Find Shortest Route''])
              else (ui @ [Button ''Find Shortest Route''], Finished)))"

section \<open>Vocabulary of the properties\<close>

text \<open>Membership of a node and of an edge, and reachability along directed edges.\<close>

definition has_node :: "digraph \<Rightarrow> node \<Rightarrow> bool" where
  "has_node G n \<longleftrightarrow> map_of (nodes G) n \<noteq> None"

definition has_edge :: "digraph \<Rightarrow> node \<Rightarrow> node \<Rightarrow> bool" where
  "has_edge G u v \<longleftrightarrow> map_of (adj G) (u, v) \<noteq> None"

definition reachable :: "digraph \<Rightarrow> node \<Rightarrow> node \<Rightarrow> bool" where
  "reachable G s t \<longleftrightarrow> (s, t) \<in> {(u, v). has_edge G u v}\<^sup>*"

text \<open>
  What networkx documents for \<open>nx.shortest_path\<close> and the code relies on, for two nodes of
  the graph: a node is joined to itself by the one-node path, and an unreachable target
  raises \<open>NetworkXNoPath\<close>.
\<close>

definition nx_shortest_path_documented :: "path_finder \<Rightarrow> digraph \<Rightarrow> bool" where
  "nx_shortest_path_documented sp G \<longleftrightarrow>
     (\<forall>s t. has_node G s \<and> has_node G t \<longrightarrow>
        (s = t \<longrightarrow> sp G s t = Inr [s]) \<and>
        (\<not> reachable G s t \<longrightarrow> sp G s t = Inl NetworkXNoPath))"

text \<open>
  The request of \<open>env\<close> gets as far as the route finder: the graph \<open>G\<close> was loaded, both
  selected names are in the catalog, and their coordinates resolve to \<open>origin\<close> and \<open>dest\<close>.
\<close>

definition resolves_to :: "env \<Rightarrow> digraph \<Rightarrow> node \<Rightarrow> node \<Rightarrow> bool" where
  "resolves_to env G origin dest \<longleftrightarrow>
     (\<exists>M sc ec.
        graph_from_place env = Inr M \<and> G = DiGraph M \<and>
        map_of get_locations (start_choice env) = Some sc \<and>
        map_of get_locations (end_choice env) = Some ec \<and>
        nearest_nodes env G (snd sc) (fst sc) = Inr origin \<and>
        nearest_nodes env G (snd ec) (fst ec) = Inr dest)"

text \<open>The page as it stands once both select boxes are drawn.\<close>

definition picker_page :: "event list" where
  "picker_page =
     [Title title_text,
      Selectbox ''Select start location:'' (map fst get_locations) 0,
      Selectbox ''Select destination:'' (map fst get_locations) 1]"

text \<open>The page elements that present a route: heading, map and distance.\<close>

fun presents_route :: "event \<Rightarrow> bool" where
  "presents_route (Subheader _) = True"
| "presents_route (FoliumStatic _ _ _) = True"
| "presents_route (DistanceReadout _) = True"
| "presents_route _ = False"

text \<open>A node that carries numeric \<open>'y'\<close> and \<open>'x'\<close>, and the two numbers.\<close>

definition node_lat :: "digraph \<Rightarrow> node \<Rightarrow> real option" where
  "node_lat G n =
     (case map_of (nodes G) n of
        None \<Rightarrow> None
      | Some a \<Rightarrow> (case a ''y'' of Some (PyNum y) \<Rightarrow> Some y | _ \<Rightarrow> None))"

definition node_lon :: "digraph \<Rightarrow> node \<Rightarrow> real option" where
  "node_lon G n =
     (case map_of (nodes G) n of
        None \<Rightarrow> None
      | Some a \<Rightarrow> (case a ''x'' of Some (PyNum x) \<Rightarrow> Some x | _ \<Rightarrow> None))"

definition has_coords :: "digraph \<Rightarrow> node \<Rightarrow> bool" where
  "has_coords G n \<longleftrightarrow> node_lat G n \<noteq> None \<and> node_lon G n \<noteq> None"

definition lat :: "digraph \<Rightarrow> node \<Rightarrow> real" where
  "lat G n = (case node_lat G n of Some y \<Rightarrow> y | None \<Rightarrow> 0)"

definition lon :: "digraph \<Rightarrow> node \<Rightarrow> real" where
  "lon G n = (case node_lon G n of Some x \<Rightarrow> x | None \<Rightarrow> 0)"

definition coord_of :: "digraph \<Rightarrow> node \<Rightarrow> coord" where
  "coord_of G n = (PyNum (lat G n), PyNum (lon G n))"

text \<open>
  The metres that one consecutive pair of a route stands for: the \<open>'length'\<close> of its edge,
  and 0 for an edge that has no \<open>'length'\<close>.
\<close>

definition edge_metres :: "digraph \<Rightarrow> node \<times> node \<Rightarrow> real" where
  "edge_metres G e =
     (case map_of (adj G) e of
        None \<Rightarrow> 0
      | Some d \<Rightarrow> (case d ''length'' of Some (PyNum x) \<Rightarrow> x | _ \<Rightarrow> 0))"

text \<open>How many edges a graph stores for an ordered pair of nodes.\<close>

definition edge_count :: "digraph \<Rightarrow> node \<Rightarrow> node \<Rightarrow> nat" where
  "edge_count G u v = length (filter (\<lambda>e. fst e = (u, v)) (adj G))"

text \<open>The attribute dictionaries of the parallel edges from \<open>u\<close> to \<open>v\<close>, in order.\<close>

definition parallel_edges :: "multidigraph \<Rightarrow> node \<Rightarrow> node \<Rightarrow> attrs list" where
  "parallel_edges M u v =
     map (\<lambda>(u', v', key, dd). dd) (filter (\<lambda>(u', v', key, dd). (u', v') = (u, v)) (m_edges M))"

section \<open>A small road network\<close>

text \<open>
  Four junctions along a one-way street, with two parallel carriageways from 1 to 2 and a
  last segment that has a name but no length.
\<close>

definition demo_raw :: multidigraph where
  "demo_raw =
     \<lparr>m_nodes =
        [(1, [''y'' \<mapsto> PyNum 30.32, ''x'' \<mapsto> PyNum 78.04]),
         (2, [''y'' \<mapsto> PyNum 30.33, ''x'' \<mapsto> PyNum 78.05]),
         (3, [''y'' \<mapsto> PyNum 30.34, ''x'' \<mapsto> PyNum 78.06]),
         (4, [''y'' \<mapsto> PyNum 30.35, ''x'' \<mapsto> PyNum 78.07])],
      m_edges =
        [(1, 2, 0, [''length'' \<mapsto> PyNum 1500, ''name'' \<mapsto> PyOther ''Rajpur Road'']),
         (1, 2, 1, [''length'' \<mapsto> PyNum 1400]),
         (2, 3, 0, [''length'' \<mapsto> PyNum 700]),
         (3, 4, 0, [''name'' \<mapsto> PyOther ''Rajpur Road''])]\<rparr>"

definition demo_graph :: digraph where
  "demo_graph = DiGraph demo_raw"

text \<open>The answers of \<open>nx.shortest_path\<close> on that network.\<close>

definition demo_shortest_path :: path_finder where
  "demo_shortest_path G s t =
     (if s = t then Inr [s]
      else if 1 \<le> s \<and> s < t \<and> t \<le> 4 then Inr [s..t]
      else Inl NetworkXNoPath)"

text \<open>A nearest-node lookup that sends the northern half of the town to junction 4.\<close>

definition demo_nearest_nodes :: "digraph \<Rightarrow> real \<Rightarrow> real \<Rightarrow> exn + node" where
  "demo_nearest_nodes G X Y = (if Y < 30.3 then Inr 1 else Inr 4)"

definition demo_env :: env where
  "demo_env =
     \<lparr>graph_from_place = Inr demo_raw,
      start_choice = ''Clock Tower'',
      end_choice = ''ISBT'',
      button_clicked = True,
      nearest_nodes = demo_nearest_nodes,
      shortest_path = demo_shortest_path\<rparr>"

section \<open>Properties of the distance aggregator\<close>

lemma attr_get_missing_edge:
  "map_of (adj G) (u, v) = None \<Longrightarrow>
   attr_get (get_edge_data G u v (PyNum 0)) ''length'' (PyNum 0) = Inl AttributeError"
  by (simp add: get_edge_data_def attr_get_def)

lemma attr_get_edge:
  "map_of (adj G) (u, v) = Some d \<Longrightarrow>
   attr_get (get_edge_data G u v (PyNum 0)) ''length'' (PyNum 0) = Inr (edge_length d)"
  by (simp add: get_edge_data_def attr_get_def edge_length_def)

lemma sum_edge_lengths_ok:
  "is_route G route \<Longrightarrow> lengths_satisfy (\<lambda>x. True) G route \<Longrightarrow>
   sum_edge_lengths G route metres = Inr (metres + route_metres G route)"
proof (induction G route metres rule: sum_edge_lengths.induct)
  case (1 G u v rest metres)
  from "1.prems" obtain d where d: "map_of (adj G) (u, v) = Some d"
    by auto
  with "1.prems" obtain x where x: "edge_length d = PyNum x"
    by (auto split: pyval.splits)
  have "sum_edge_lengths G (v # rest) (metres + x) = Inr (metres + x + route_metres G (v # rest))"
    using "1.IH" [of "PyNum x" "metres + x"] "1.prems" d x
    by (simp add: attr_get_edge py_add_def)
  then show ?case
    using d x by (simp add: attr_get_edge py_add_def)
qed simp_all

lemma sum_edge_lengths_missing_edge:
  "\<not> is_route G route \<Longrightarrow> \<exists>e. sum_edge_lengths G route metres = Inl e"
proof (induction G route metres rule: sum_edge_lengths.induct)
  case (1 G u v rest metres)
  show ?case
  proof (cases "map_of (adj G) (u, v)")
    case None
    then show ?thesis by (simp add: attr_get_missing_edge)
  next
    case (Some d)
    with "1.prems" have rest: "\<not> is_route G (v # rest)" by simp
    show ?thesis
    proof (cases "edge_length d")
      case (PyNum x)
      then show ?thesis
        using "1.IH" [of "PyNum x" "metres + x"] Some rest
        by (simp add: attr_get_edge py_add_def)
    next
      case (PyOther s)
      then show ?thesis
        using Some by (simp add: attr_get_edge py_add_def)
    qed
  qed
qed simp_all

lemma sum_edge_lengths_attribute_error:
  "\<not> is_route G route \<Longrightarrow> lengths_satisfy (\<lambda>x. True) G route \<Longrightarrow>
   sum_edge_lengths G route metres = Inl AttributeError"
proof (induction G route metres rule: sum_edge_lengths.induct)
  case (1 G u v rest metres)
  show ?case
  proof (cases "map_of (adj G) (u, v)")
    case None
    then show ?thesis by (simp add: attr_get_missing_edge)
  next
    case (Some d)
    with "1.prems" have rest: "\<not> is_route G (v # rest)" "lengths_satisfy (\<lambda>x. True) G (v # rest)"
      by simp_all
    from "1.prems" Some obtain x where x: "edge_length d = PyNum x"
      by (auto split: pyval.splits)
    show ?thesis
      using "1.IH" [of "PyNum x" "metres + x"] Some rest x
      by (simp add: attr_get_edge py_add_def)
  qed
qed simp_all

lemma route_metres_nonneg:
  "lengths_satisfy (\<lambda>x. 0 \<le> x) G route \<Longrightarrow> 0 \<le> route_metres G route"
  by (induction G route rule: route_metres.induct)
     (auto split: option.splits pyval.splits)

lemma lengths_satisfy_weaken:
  "lengths_satisfy P G route \<Longrightarrow> lengths_satisfy (\<lambda>x. True) G route"
  by (induction P G route rule: lengths_satisfy.induct)
     (auto split: option.splits pyval.splits)

lemma is_route_snoc:
  "route \<noteq> [] \<Longrightarrow>
   is_route G (route @ [n]) = (is_route G route \<and> map_of (adj G) (last route, n) \<noteq> None)"
  by (induction G route rule: is_route.induct) auto

lemma lengths_satisfy_snoc:
  "route \<noteq> [] \<Longrightarrow> map_of (adj G) (last route, n) = Some d \<Longrightarrow>
   lengths_satisfy P G (route @ [n]) =
     (lengths_satisfy P G route \<and> (case edge_length d of PyNum x \<Rightarrow> P x | PyOther _ \<Rightarrow> False))"
  by (induction P G route rule: lengths_satisfy.induct) auto

lemma route_metres_snoc:
  "route \<noteq> [] \<Longrightarrow> map_of (adj G) (last route, n) = Some d \<Longrightarrow> edge_length d = PyNum x \<Longrightarrow>
   route_metres G (route @ [n]) = route_metres G route + x"
  by (induction G route rule: route_metres.induct) auto

lemma all_Suc_split: "(\<forall>i. P i) \<longleftrightarrow> P 0 \<and> (\<forall>i. P (Suc i))"
proof
  assume "P 0 \<and> (\<forall>i. P (Suc i))"
  then show "\<forall>i. P i" by (auto intro: nat.induct)
qed simp

text \<open>The Route invariant, read by index as the loop reads the route.\<close>

lemma is_route_iff:
  "is_route G route \<longleftrightarrow>
     (\<forall>i. Suc i < length route \<longrightarrow> has_edge G (route ! i) (route ! Suc i))"
proof (induction G route rule: is_route.induct)
  case (1 G u v rest)
  show ?case
    unfolding is_route.simps "1.IH"
    by (subst (2) all_Suc_split) (simp add: has_edge_def)
qed simp_all

lemma route_length_on_routes:
  "is_route G route \<Longrightarrow> lengths_satisfy (\<lambda>x. True) G route \<Longrightarrow>
   get_route_length_km G route = Inr (route_metres G route / 1000)"
  by (simp add: get_route_length_km_def sum_edge_lengths_ok)

lemma route_metres_pairs:
  "route_metres G route = sum_list (map (edge_metres G) (zip route (tl route)))"
  by (induction G route rule: route_metres.induct)
     (auto simp: edge_metres_def edge_length_def split: option.splits pyval.splits)

section \<open>The small road network, evaluated\<close>

lemma demo_adj:
  "adj demo_graph =
     [((1, 2), [''length'' \<mapsto> PyNum 1400, ''name'' \<mapsto> PyOther ''Rajpur Road'']),
      ((2, 3), [''length'' \<mapsto> PyNum 700]),
      ((3, 4), [''name'' \<mapsto> PyOther ''Rajpur Road''])]"
  by (simp add: demo_graph_def DiGraph_def demo_raw_def fun_eq_iff)

lemma demo_nodes:
  "nodes demo_graph =
     [(1, [''y'' \<mapsto> PyNum 30.32, ''x'' \<mapsto> PyNum 78.04]),
      (2, [''y'' \<mapsto> PyNum 30.33, ''x'' \<mapsto> PyNum 78.05]),
      (3, [''y'' \<mapsto> PyNum 30.34, ''x'' \<mapsto> PyNum 78.06]),
      (4, [''y'' \<mapsto> PyNum 30.35, ''x'' \<mapsto> PyNum 78.07])]"
  by (simp add: demo_graph_def DiGraph_def demo_raw_def)

lemma demo_has_node: "has_node demo_graph n \<longleftrightarrow> n = 1 \<or> n = 2 \<or> n = 3 \<or> n = 4"
  by (simp add: has_node_def demo_nodes)

lemma demo_has_edge:
  "has_edge demo_graph u v \<longleftrightarrow> (u, v) = (1, 2) \<or> (u, v) = (2, 3) \<or> (u, v) = (3, 4)"
  by (simp add: has_edge_def demo_adj)

lemma reachable_refl: "reachable G s s"
  by (simp add: reachable_def)

lemma reachable_step: "reachable G s u \<Longrightarrow> has_edge G u v \<Longrightarrow> reachable G s v"
  unfolding reachable_def by (rule rtrancl_into_rtrancl) simp_all

lemma reachable_first_edge: "reachable G s t \<Longrightarrow> s \<noteq> t \<Longrightarrow> \<exists>u. has_edge G s u"
  unfolding reachable_def by (erule converse_rtranclE) auto

lemma demo_reachable:
  assumes "1 \<le> s" "s \<le> t" "t \<le> 4"
  shows "reachable demo_graph s t"
proof -
  have e12: "has_edge demo_graph 1 2" and e23: "has_edge demo_graph 2 3"
    and e34: "has_edge demo_graph 3 4"
    by (simp_all add: demo_has_edge)
  have r12: "reachable demo_graph 1 2" using reachable_step [OF reachable_refl e12] .
  have r13: "reachable demo_graph 1 3" using reachable_step [OF r12 e23] .
  have r14: "reachable demo_graph 1 4" using reachable_step [OF r13 e34] .
  have r23: "reachable demo_graph 2 3" using reachable_step [OF reachable_refl e23] .
  have r24: "reachable demo_graph 2 4" using reachable_step [OF r23 e34] .
  have r34: "reachable demo_graph 3 4" using reachable_step [OF reachable_refl e34] .
  from assms have "s = t \<or> (s, t) = (1, 2) \<or> (s, t) = (1, 3) \<or> (s, t) = (1, 4)
      \<or> (s, t) = (2, 3) \<or> (s, t) = (2, 4) \<or> (s, t) = (3, 4)"
    by auto
  then show ?thesis
    using r12 r13 r14 r23 r24 r34 reachable_refl [of demo_graph s] by auto
qed

lemma demo_unreachable: "\<not> reachable demo_graph 4 1"
proof
  assume "reachable demo_graph 4 1"
  then have "\<exists>u. has_edge demo_graph 4 u" by (rule reachable_first_edge) simp
  then show False by (simp add: demo_has_edge)
qed

lemma demo_documented: "nx_shortest_path_documented demo_shortest_path demo_graph"
  unfolding nx_shortest_path_documented_def
proof (intro allI impI conjI)
  fix s t :: node
  assume "has_node demo_graph s \<and> has_node demo_graph t" "s = t"
  then show "demo_shortest_path demo_graph s t = Inr [s]"
    by (simp add: demo_shortest_path_def)
next
  fix s t :: node
  assume n: "has_node demo_graph s \<and> has_node demo_graph t"
    and u: "\<not> reachable demo_graph s t"
  from u have "s \<noteq> t" using reachable_refl by auto
  moreover from u have "\<not> (1 \<le> s \<and> s < t \<and> t \<le> 4)" using demo_reachable [of s t] by auto
  ultimately show "demo_shortest_path demo_graph s t = Inl NetworkXNoPath"
    by (simp add: demo_shortest_path_def)
qed

section \<open>Claims about the distance aggregator and the route finder\<close>

text \<open>
  Claim C1: \<open>get_route_length_km\<close> walks the consecutive node pairs of the route, sums the
  \<open>'length'\<close> of each edge in metres, counts an edge without a \<open>'length'\<close> as 0 instead of
  failing, divides the sum by 1000, and does not raise. A route is a node sequence whose
  consecutive pairs are edges of the graph, and a length that is present is a number; the
  consecutive pairs are \<open>zip route (tl route)\<close>.
\<close>

theorem route_length_sums_edge_lengths:
  assumes "is_route G route"
    and "lengths_satisfy (\<lambda>x. True) G route"
  shows "get_route_length_km G route =
      Inr (sum_list (map (edge_metres G) (zip route (tl route))) / 1000)
    \<and> (\<forall>u v d. map_of (adj G) (u, v) = Some d \<and> d ''length'' = None \<longrightarrow>
          attr_get (get_edge_data G u v (PyNum 0)) ''length'' (PyNum 0) = Inr (PyNum 0)
          \<and> edge_metres G (u, v) = 0)"
proof -
  have "get_route_length_km G route = Inr (route_metres G route / 1000)"
    using assms by (rule route_length_on_routes)
  then have "get_route_length_km G route =
      Inr (sum_list (map (edge_metres G) (zip route (tl route))) / 1000)"
    by (simp add: route_metres_pairs)
  moreover have "attr_get (get_edge_data G u v (PyNum 0)) ''length'' (PyNum 0) = Inr (PyNum 0)
      \<and> edge_metres G (u, v) = 0"
    if "map_of (adj G) (u, v) = Some d \<and> d ''length'' = None" for u v d
    using that by (simp add: attr_get_edge edge_length_def edge_metres_def)
  ultimately show ?thesis by blast
qed

theorem route_length_sums_edge_lengths_witness:
  "is_route demo_graph [1, 2, 3, 4]
   \<and> lengths_satisfy (\<lambda>x. True) demo_graph [1, 2, 3, 4]
   \<and> edge_metres demo_graph (1, 2) = 1400
   \<and> edge_metres demo_graph (2, 3) = 700
   \<and> edge_metres demo_graph (3, 4) = 0
   \<and> get_route_length_km demo_graph [1, 2, 3, 4] = Inr 2.1"
proof -
  have r: "is_route demo_graph [1, 2, 3, 4]"
    by (simp add: demo_adj)
  have l: "lengths_satisfy (\<lambda>x. True) demo_graph [1, 2, 3, 4]"
    by (simp add: demo_adj edge_length_def)
  have m: "edge_metres demo_graph (1, 2) = 1400" "edge_metres demo_graph (2, 3) = 700"
    "edge_metres demo_graph (3, 4) = 0"
    by (simp_all add: edge_metres_def demo_adj)
  from route_length_sums_edge_lengths [OF r l]
  have "get_route_length_km demo_graph [1, 2, 3, 4] = Inr 2.1"
    by (simp add: m)
  with r l m show ?thesis by blast
qed

text \<open>
  Claim C9: \<open>get_route_length_km\<close> is total only under the Route invariant. If the pair at
  some index \<open>i\<close> of the route is not an edge of the graph, the edge lookup returns the
  integer default 0, the lookup of \<open>'length'\<close> on that default fails with
  \<open>AttributeError\<close>, and the call raises instead of adding 0; the exception is that
  \<open>AttributeError\<close> whenever all the lengths met on the way are numbers.
\<close>

theorem route_length_total_only_on_routes:
  assumes "Suc i < length route"
    and "map_of (adj G) (route ! i, route ! Suc i) = None"
  shows "get_edge_data G (route ! i) (route ! Suc i) (PyNum 0) = DefaultObj (PyNum 0)
    \<and> attr_get (DefaultObj (PyNum 0)) ''length'' (PyNum 0) = Inl AttributeError
    \<and> (\<exists>e. get_route_length_km G route = Inl e)
    \<and> (lengths_satisfy (\<lambda>x. True) G route \<longrightarrow>
         get_route_length_km G route = Inl AttributeError)"
proof -
  from assms have nr: "\<not> is_route G route"
    by (auto simp: is_route_iff has_edge_def)
  obtain e where "sum_edge_lengths G route 0 = Inl e"
    using sum_edge_lengths_missing_edge [OF nr] by blast
  then have raises: "\<exists>e. get_route_length_km G route = Inl e"
    by (simp add: get_route_length_km_def)
  have "get_edge_data G (route ! i) (route ! Suc i) (PyNum 0) = DefaultObj (PyNum 0)"
    using assms(2) by (simp add: get_edge_data_def)
  moreover have "attr_get (DefaultObj (PyNum 0)) ''length'' (PyNum 0) = Inl AttributeError"
    by (simp add: attr_get_def)
  moreover have "lengths_satisfy (\<lambda>x. True) G route \<longrightarrow>
      get_route_length_km G route = Inl AttributeError"
    using sum_edge_lengths_attribute_error [OF nr]
    by (simp add: get_route_length_km_def)
  ultimately show ?thesis using raises by blast
qed

theorem route_length_total_only_on_routes_witness:
  "Suc 3 < length [1, 2, 3, 4, 1 :: node]
   \<and> map_of (adj demo_graph) ([1, 2, 3, 4, 1] ! 3, [1, 2, 3, 4, 1] ! Suc 3) = None
   \<and> get_route_length_km demo_graph [1, 2, 3, 4, 1] = Inl AttributeError"
proof -
  have len: "Suc 3 < length [1, 2, 3, 4, 1 :: node]" by simp
  have gap: "map_of (adj demo_graph) ([1, 2, 3, 4, 1] ! 3, [1, 2, 3, 4, 1] ! Suc 3) = None"
    by (simp add: demo_adj)
  have nums: "lengths_satisfy (\<lambda>x. True) demo_graph [1, 2, 3, 4, 1]"
    by (simp add: demo_adj edge_length_def)
  from route_length_total_only_on_routes [OF len gap] nums len gap
  show ?thesis by blast
qed

text \<open>
  Claim C4: on a route whose consecutive pairs are all edges and whose traversed lengths are
  all non-negative (or absent), \<open>get_route_length_km\<close> returns a non-negative number of
  kilometres, and appending one more edge of non-negative length to the route returns a
  number that is not smaller.
\<close>

theorem route_length_nonneg_monotone:
  assumes "is_route G route"
    and "lengths_satisfy (\<lambda>x. 0 \<le> x) G route"
  shows "\<exists>km. get_route_length_km G route = Inr km \<and> 0 \<le> km \<and>
    (\<forall>n d x. route \<noteq> [] \<and> map_of (adj G) (last route, n) = Some d
        \<and> edge_length d = PyNum x \<and> 0 \<le> x \<longrightarrow>
      (\<exists>km'. get_route_length_km G (route @ [n]) = Inr km' \<and> km \<le> km'))"
proof -
  have nums: "lengths_satisfy (\<lambda>x. True) G route"
    using assms(2) by (rule lengths_satisfy_weaken)
  have km: "get_route_length_km G route = Inr (route_metres G route / 1000)"
    using assms(1) nums by (rule route_length_on_routes)
  have nonneg: "0 \<le> route_metres G route / 1000"
    using route_metres_nonneg [OF assms(2)] by simp
  have grow: "\<exists>km'. get_route_length_km G (route @ [n]) = Inr km'
      \<and> route_metres G route / 1000 \<le> km'"
    if "route \<noteq> []" "map_of (adj G) (last route, n) = Some d" "edge_length d = PyNum x" "0 \<le> x"
    for n d x
  proof -
    have r: "is_route G (route @ [n])"
      using that assms(1) by (simp add: is_route_snoc)
    have l: "lengths_satisfy (\<lambda>x. True) G (route @ [n])"
      using that nums by (simp add: lengths_satisfy_snoc)
    have "get_route_length_km G (route @ [n]) = Inr ((route_metres G route + x) / 1000)"
      using route_length_on_routes [OF r l] that by (simp add: route_metres_snoc)
    moreover have "route_metres G route / 1000 \<le> (route_metres G route + x) / 1000"
      using that(4) by (simp add: divide_right_mono)
    ultimately show ?thesis by blast
  qed
  show ?thesis
    using km nonneg grow by blast
qed

theorem route_length_nonneg_monotone_witness:
  "is_route demo_graph [1, 2] \<and> lengths_satisfy (\<lambda>x. 0 \<le> x) demo_graph [1, 2]
   \<and> (\<exists>km km'. get_route_length_km demo_graph [1, 2] = Inr km \<and> 0 \<le> km
        \<and> get_route_length_km demo_graph ([1, 2] @ [3]) = Inr km' \<and> km \<le> km')"
proof -
  have r: "is_route demo_graph [1, 2]" by (simp add: demo_adj)
  have l: "lengths_satisfy (\<lambda>x. 0 \<le> x) demo_graph [1, 2]"
    by (simp add: demo_adj edge_length_def)
  have e: "[1, 2 :: node] \<noteq> [] \<and> map_of (adj demo_graph) (last [1, 2], 3) = Some [''length'' \<mapsto> PyNum 700]
      \<and> edge_length [''length'' \<mapsto> PyNum 700] = PyNum 700 \<and> (0::real) \<le> 700"
    by (simp add: demo_adj edge_length_def)
  from route_length_nonneg_monotone [OF r l] e r l
  show ?thesis by blast
qed

text \<open>
  Claim C3: when origin and destination are the same node \<open>n\<close> of the graph,
  \<open>get_shortest_route\<close> returns the one-node route \<open>[n]\<close> (networkx joins a node to itself
  by that path), and \<open>get_route_length_km\<close> of that route is 0 km.
\<close>

theorem same_node_route_has_length_zero:
  assumes "nx_shortest_path_documented sp G" and "has_node G n"
  shows "get_shortest_route sp G n n = (Inr (Some [n]), [])
    \<and> get_route_length_km G [n] = Inr 0"
proof -
  from assms have "sp G n n = Inr [n]"
    by (simp add: nx_shortest_path_documented_def)
  then show ?thesis
    by (simp add: get_shortest_route_def get_route_length_km_def)
qed

theorem same_node_route_has_length_zero_witness:
  "nx_shortest_path_documented demo_shortest_path demo_graph \<and> has_node demo_graph 2
   \<and> get_shortest_route demo_shortest_path demo_graph 2 2 = (Inr (Some [2]), [])
   \<and> get_route_length_km demo_graph [2] = Inr 0"
proof -
  have n: "has_node demo_graph 2" by (simp add: demo_has_node)
  from same_node_route_has_length_zero [OF demo_documented n] demo_documented n
  show ?thesis by blast
qed

section \<open>Claims about the orchestrator\<close>

lemma main_load_failure:
  "graph_from_place env = Inl msg \<Longrightarrow>
   main env = ([Title title_text, ErrorMsg (''Error loading map data: '' @ msg)], Stopped)"
  by (simp add: main_def load_dehradun_graph_def)

lemma main_identical:
  "graph_from_place env = Inr M \<Longrightarrow> start_choice env = end_choice env \<Longrightarrow>
   main env = (picker_page @ [WarningMsg ''Start and destination must be different.''], Stopped)"
  by (simp add: main_def load_dehradun_graph_def picker_page_def Let_def)

lemma main_button:
  "graph_from_place env = Inr M \<Longrightarrow> start_choice env \<noteq> end_choice env \<Longrightarrow>
   button_clicked env \<Longrightarrow>
   main env = find_and_show env (DiGraph M) (start_choice env) (end_choice env)
                (picker_page @ [Button ''Find Shortest Route''])"
  by (simp add: main_def load_dehradun_graph_def picker_page_def Let_def)

text \<open>
  Claim C7: if fetching or building the graph raises an exception (of class \<open>Exception\<close>,
  with text \<open>msg\<close>), \<open>load_dehradun_graph\<close> does not raise: it returns \<open>None\<close> and prints the
  error message \<open>Error loading map data: msg\<close>. The run of \<open>main\<close> then stops right after
  the title and that message: no select box and no button is drawn, nothing else happens.
\<close>

theorem load_failure_halts_session:
  "load_dehradun_graph (Inl msg) = (None, [ErrorMsg (''Error loading map data: '' @ msg)])
   \<and> (graph_from_place env = Inl msg \<longrightarrow>
        main env = ([Title title_text, ErrorMsg (''Error loading map data: '' @ msg)], Stopped))"
  by (simp add: main_load_failure) (simp add: load_dehradun_graph_def)

theorem load_failure_halts_session_witness:
  "graph_from_place (demo_env\<lparr>graph_from_place := Inl ''no network''\<rparr>) = Inl ''no network''
   \<and> main (demo_env\<lparr>graph_from_place := Inl ''no network''\<rparr>) =
       ([Title title_text, ErrorMsg ''Error loading map data: no network''], Stopped)"
  using load_failure_halts_session
    [of "''no network''" "demo_env\<lparr>graph_from_place := Inl ''no network''\<rparr>"]
  by simp

text \<open>
  Claim C6: when the two selected names are identical, the run shows the warning and stops.
  The page holds the title, the two select boxes and the warning, and nothing that presents
  a route; the outcome does not depend on the nearest-node lookup or on the path finder,
  which are never called.
\<close>

theorem identical_selection_never_routes:
  assumes "graph_from_place env = Inr M"
    and "start_choice env = end_choice env"
  shows "main env =
      (picker_page @ [WarningMsg ''Start and destination must be different.''], Stopped)
    \<and> (\<forall>ev \<in> set (fst (main env)). \<not> presents_route ev)
    \<and> main (env\<lparr>nearest_nodes := nn, shortest_path := sp\<rparr>) = main env"
proof -
  have m: "main env =
      (picker_page @ [WarningMsg ''Start and destination must be different.''], Stopped)"
    using assms by (rule main_identical)
  have "main (env\<lparr>nearest_nodes := nn, shortest_path := sp\<rparr>) =
      (picker_page @ [WarningMsg ''Start and destination must be different.''], Stopped)"
    using assms by (intro main_identical [of _ M]) simp_all
  with m show ?thesis by (simp add: picker_page_def)
qed

theorem identical_selection_never_routes_witness:
  "graph_from_place (demo_env\<lparr>end_choice := ''Clock Tower''\<rparr>) = Inr demo_raw
   \<and> start_choice (demo_env\<lparr>end_choice := ''Clock Tower''\<rparr>)
       = end_choice (demo_env\<lparr>end_choice := ''Clock Tower''\<rparr>)
   \<and> main (demo_env\<lparr>end_choice := ''Clock Tower''\<rparr>) =
       (picker_page @ [WarningMsg ''Start and destination must be different.''], Stopped)"
proof -
  have g: "graph_from_place (demo_env\<lparr>end_choice := ''Clock Tower''\<rparr>) = Inr demo_raw"
    by (simp add: demo_env_def)
  have c: "start_choice (demo_env\<lparr>end_choice := ''Clock Tower''\<rparr>)
      = end_choice (demo_env\<lparr>end_choice := ''Clock Tower''\<rparr>)"
    by (simp add: demo_env_def)
  from identical_selection_never_routes [OF g c] g c show ?thesis by blast
qed

lemma get_shortest_route_no_path:
  "sp G s t = Inl NetworkXNoPath \<Longrightarrow>
   get_shortest_route sp G s t = (Inr None, [ErrorMsg ''No path exists between these locations.''])"
  by (simp add: get_shortest_route_def)

lemma find_and_show_no_path:
  assumes "map_of get_locations a = Some sc" "map_of get_locations b = Some ec"
    and "nearest_nodes env G (snd sc) (fst sc) = Inr s"
    and "nearest_nodes env G (snd ec) (fst ec) = Inr t"
    and "shortest_path env G s t = Inl NetworkXNoPath"
  shows "find_and_show env G a b ui =
    (ui @ [ErrorMsg ''No path exists between these locations.'', ErrorMsg ''No route found.''],
     Stopped)"
  using assms by (simp add: find_and_show_def get_shortest_route_no_path)

text \<open>
  Claim C2: for two nodes of the graph with the destination unreachable from the origin
  (where networkx raises \<open>NetworkXNoPath\<close>), \<open>get_shortest_route\<close> returns \<open>None\<close> instead
  of raising and prints a message. A run of \<open>main\<close> whose selections resolve to these two
  nodes then prints \<open>No route found.\<close> and stops: the page holds no heading, no map and no
  distance.
\<close>

theorem no_path_stops_request:
  assumes "nx_shortest_path_documented sp G"
    and "has_node G origin" and "has_node G dest"
    and "\<not> reachable G origin dest"
  shows "get_shortest_route sp G origin dest =
      (Inr None, [ErrorMsg ''No path exists between these locations.''])
    \<and> (\<forall>env. shortest_path env = sp \<and> resolves_to env G origin dest
          \<and> start_choice env \<noteq> end_choice env \<and> button_clicked env \<longrightarrow>
        main env =
          (picker_page @
             [Button ''Find Shortest Route'',
              ErrorMsg ''No path exists between these locations.'',
              ErrorMsg ''No route found.''],
           Stopped)
        \<and> (\<forall>ev \<in> set (fst (main env)). \<not> presents_route ev))"
proof -
  from assms have np: "sp G origin dest = Inl NetworkXNoPath"
    by (simp add: nx_shortest_path_documented_def)
  have page: "main env =
      (picker_page @
         [Button ''Find Shortest Route'',
          ErrorMsg ''No path exists between these locations.'',
          ErrorMsg ''No route found.''],
       Stopped)"
    if sp: "shortest_path env = sp" and r: "resolves_to env G origin dest"
      and d: "start_choice env \<noteq> end_choice env" and b: "button_clicked env"
    for env
  proof -
    from r obtain M sc ec where
      M: "graph_from_place env = Inr M" "G = DiGraph M"
      and sc: "map_of get_locations (start_choice env) = Some sc"
      and ec: "map_of get_locations (end_choice env) = Some ec"
      and s: "nearest_nodes env G (snd sc) (fst sc) = Inr origin"
      and t: "nearest_nodes env G (snd ec) (fst ec) = Inr dest"
      unfolding resolves_to_def by blast
    have "shortest_path env G origin dest = Inl NetworkXNoPath"
      using np sp by simp
    from find_and_show_no_path [OF sc ec s t this]
    show ?thesis
      using main_button [OF M(1) d b] M(2) by simp
  qed
  have "\<forall>env. shortest_path env = sp \<and> resolves_to env G origin dest
          \<and> start_choice env \<noteq> end_choice env \<and> button_clicked env \<longrightarrow>
        main env =
          (picker_page @
             [Button ''Find Shortest Route'',
              ErrorMsg ''No path exists between these locations.'',
              ErrorMsg ''No route found.''],
           Stopped)
        \<and> (\<forall>ev \<in> set (fst (main env)). \<not> presents_route ev)"
  proof (intro allI impI)
    fix env
    assume a: "shortest_path env = sp \<and> resolves_to env G origin dest
          \<and> start_choice env \<noteq> end_choice env \<and> button_clicked env"
    then have p: "main env =
      (picker_page @
         [Button ''Find Shortest Route'',
          ErrorMsg ''No path exists between these locations.'',
          ErrorMsg ''No route found.''],
       Stopped)"
      using page by blast
    then show "main env =
          (picker_page @
             [Button ''Find Shortest Route'',
              ErrorMsg ''No path exists between these locations.'',
              ErrorMsg ''No route found.''],
           Stopped)
        \<and> (\<forall>ev \<in> set (fst (main env)). \<not> presents_route ev)"
      by (simp add: picker_page_def)
  qed
  moreover have "get_shortest_route sp G origin dest =
      (Inr None, [ErrorMsg ''No path exists between these locations.''])"
    using np by (rule get_shortest_route_no_path)
  ultimately show ?thesis by blast
qed

lemma demo_resolves: "resolves_to demo_env demo_graph 4 1"
  unfolding resolves_to_def
  apply (rule exI [of _ demo_raw])
  apply (rule exI [of _ "(30.3253, 78.0413)"])
  apply (rule exI [of _ "(30.2881, 78.0428)"])
  apply (simp add: demo_env_def demo_graph_def get_locations_def demo_nearest_nodes_def)
  done

theorem no_path_stops_request_witness:
  "nx_shortest_path_documented demo_shortest_path demo_graph
   \<and> has_node demo_graph 4 \<and> has_node demo_graph 1 \<and> \<not> reachable demo_graph 4 1
   \<and> get_shortest_route demo_shortest_path demo_graph 4 1 =
       (Inr None, [ErrorMsg ''No path exists between these locations.''])
   \<and> main demo_env =
       (picker_page @
          [Button ''Find Shortest Route'',
           ErrorMsg ''No path exists between these locations.'',
           ErrorMsg ''No route found.''],
        Stopped)"
proof -
  have n4: "has_node demo_graph 4" and n1: "has_node demo_graph 1"
    by (simp_all add: demo_has_node)
  have e: "shortest_path demo_env = demo_shortest_path \<and> resolves_to demo_env demo_graph 4 1
      \<and> start_choice demo_env \<noteq> end_choice demo_env \<and> button_clicked demo_env"
    using demo_resolves by (simp add: demo_env_def)
  from no_path_stops_request [OF demo_documented n4 n1 demo_unreachable] e
    demo_documented n4 n1 demo_unreachable
  show ?thesis by blast
qed

section \<open>Claims about the graph provider and the map renderer\<close>

subsection \<open>Graph provider\<close>

lemma add_edge_distinct:
  "distinct (map fst al) \<Longrightarrow> distinct (map fst (add_edge al e))"
  by (cases e) (simp add: distinct_update)

lemma add_edges_distinct:
  "distinct (map fst al) \<Longrightarrow> distinct (map fst (foldl add_edge al es))"
  by (induction es arbitrary: al) (simp_all add: add_edge_distinct)

lemma add_edge_lookup:
  "map_of (add_edge al (u', v', key, dd)) (u, v) =
     (if (u', v') = (u, v)
      then Some ((case map_of al (u, v) of None \<Rightarrow> Map.empty | Some d \<Rightarrow> d) ++ dd)
      else map_of al (u, v))"
  by (auto simp: update_conv')

lemma add_edges_lookup:
  "map_of (foldl add_edge al es) (u, v) =
     (case map (\<lambda>(u', v', key, dd). dd) (filter (\<lambda>(u', v', key, dd). (u', v') = (u, v)) es) of
        [] \<Rightarrow> map_of al (u, v)
      | d # ds \<Rightarrow>
          Some (foldl (++) (case map_of al (u, v) of None \<Rightarrow> Map.empty | Some a \<Rightarrow> a) (d # ds)))"
proof (induction es arbitrary: al)
  case Nil
  show ?case by simp
next
  case (Cons e es)
  obtain u' v' key dd where e: "e = (u', v', key, dd)" by (cases e) auto
  show ?case
    unfolding e foldl_Cons Cons.IH add_edge_lookup
    by (auto split: list.splits option.splits)
qed

lemma count_distinct_keys:
  "distinct (map fst al) \<Longrightarrow>
   length (filter (\<lambda>e. fst e = k) al) = (if map_of al k = None then 0 else 1)"
proof (induction al)
  case Nil
  show ?case by simp
next
  case (Cons p al)
  then show ?case
    by (cases p) (auto simp: map_of_eq_None_iff image_iff)
qed

text \<open>
  Claim C5: for every raw graph that was fetched, \<open>load_dehradun_graph\<close> returns a simple
  directed graph. Its edge keys are distinct, so it stores at most one edge per ordered
  pair of nodes; it stores exactly one where the raw graph has parallel edges, and that
  edge carries the attribute dictionaries of the parallel edges merged in order.
\<close>

theorem loaded_graph_is_simple:
  "\<exists>G. load_dehradun_graph (Inr M) = (Some G, [])
     \<and> distinct (map fst (adj G))
     \<and> (\<forall>u v. edge_count G u v \<le> 1
          \<and> (edge_count G u v = 1 \<longleftrightarrow> parallel_edges M u v \<noteq> [])
          \<and> map_of (adj G) (u, v) =
              (case parallel_edges M u v of
                 [] \<Rightarrow> None
               | d # ds \<Rightarrow> Some (foldl (++) Map.empty (d # ds))))"
proof -
  let ?G = "DiGraph M"
  have d: "distinct (map fst (adj ?G))"
    by (simp add: DiGraph_def add_edges_distinct)
  have l: "map_of (adj ?G) (u, v) =
      (case parallel_edges M u v of
         [] \<Rightarrow> None
       | d # ds \<Rightarrow> Some (foldl (++) Map.empty (d # ds)))" for u v
    by (simp add: DiGraph_def parallel_edges_def add_edges_lookup split: list.splits)
  have c: "edge_count ?G u v = (if parallel_edges M u v = [] then 0 else 1)" for u v
    unfolding edge_count_def count_distinct_keys [OF d] l
    by (simp split: list.splits)
  have "load_dehradun_graph (Inr M) = (Some ?G, [])"
    by (simp add: load_dehradun_graph_def)
  with d l c show ?thesis by simp
qed

theorem loaded_graph_is_simple_witness:
  "\<exists>G. load_dehradun_graph (Inr demo_raw) = (Some G, [])
     \<and> edge_count G 1 2 = 1
     \<and> map_of (adj G) (1, 2) =
         Some [''length'' \<mapsto> PyNum 1400, ''name'' \<mapsto> PyOther ''Rajpur Road'']"
proof -
  have p: "parallel_edges demo_raw 1 2 =
      [[''length'' \<mapsto> PyNum 1500, ''name'' \<mapsto> PyOther ''Rajpur Road''],
       [''length'' \<mapsto> PyNum 1400]]"
    by (simp add: parallel_edges_def demo_raw_def)
  from loaded_graph_is_simple [of demo_raw] obtain G where
    G: "load_dehradun_graph (Inr demo_raw) = (Some G, [])"
    and c: "edge_count G 1 2 = 1 \<longleftrightarrow> parallel_edges demo_raw 1 2 \<noteq> []"
    and m: "map_of (adj G) (1, 2) =
      (case parallel_edges demo_raw 1 2 of
         [] \<Rightarrow> None
       | d # ds \<Rightarrow> Some (foldl (++) Map.empty (d # ds)))"
    by blast
  have "edge_count G 1 2 = 1" using c p by simp
  moreover have "map_of (adj G) (1, 2) =
      Some [''length'' \<mapsto> PyNum 1400, ''name'' \<mapsto> PyOther ''Rajpur Road'']"
    unfolding m p by (simp add: fun_eq_iff)
  ultimately show ?thesis using G by blast
qed

subsection \<open>Map renderer\<close>

lemma node_coords_ok: "has_coords G n \<Longrightarrow> node_coords G n = Inr (coord_of G n)"
  by (auto simp: has_coords_def node_coords_def coord_of_def lat_def lon_def
      node_lat_def node_lon_def split: option.splits pyval.splits)

lemma route_coords_of_ok:
  "\<forall>n \<in> set route. has_coords G n \<Longrightarrow> route_coords_of G route = Inr (map (coord_of G) route)"
  by (induction route) (simp_all add: node_coords_ok)

lemma route_coords_of_length:
  "route_coords_of G route = Inr cs \<Longrightarrow> length cs = length route"
  by (induction route arbitrary: cs) (auto split: sum.splits)

lemma py_sum_from_nums: "py_sum_from acc (map PyNum xs) = Inr (acc + sum_list xs)"
  by (induction xs arbitrary: acc) (simp_all add: py_add_def add.assoc)

lemma py_sum_lats: "py_sum (map fst (map (coord_of G) route)) = Inr (sum_list (map (lat G) route))"
  using py_sum_from_nums [of 0 "map (lat G) route"]
  by (simp add: py_sum_def coord_of_def comp_def)

lemma py_sum_lons: "py_sum (map snd (map (coord_of G) route)) = Inr (sum_list (map (lon G) route))"
  using py_sum_from_nums [of 0 "map (lon G) route"]
  by (simp add: py_sum_def coord_of_def comp_def)

lemma create_route_map_ok:
  assumes "route \<noteq> []" and "\<forall>n \<in> set route. has_coords G n"
  shows "create_route_map G route start_name end_name =
    Inr \<lparr>location = (sum_list (map (lat G) route) / real (length route),
                     sum_list (map (lon G) route) / real (length route)),
         zoom_start = 13,
         children =
           [PolyLine (map (coord_of G) route) ''blue'' 6 0.7,
            Marker (coord_of G (hd route)) (''Start: '' @ start_name) ''green'',
            Marker (coord_of G (last route)) (''End: '' @ end_name) ''red'']\<rparr>"
proof -
  define cs where "cs = map (coord_of G) route"
  have rc: "route_coords_of G route = Inr cs"
    unfolding cs_def using assms(2) by (rule route_coords_of_ok)
  have lats: "py_sum (map fst cs) = Inr (sum_list (map (lat G) route))"
    unfolding cs_def by (rule py_sum_lats)
  have lons: "py_sum (map snd cs) = Inr (sum_list (map (lon G) route))"
    unfolding cs_def by (rule py_sum_lons)
  have len: "length cs = length route" and ne: "cs \<noteq> []"
    using assms(1) by (simp_all add: cs_def)
  have first: "hd cs = coord_of G (hd route)"
    using assms(1) by (simp add: cs_def hd_map)
  have final: "last cs = coord_of G (last route)"
    using assms(1) by (simp add: cs_def last_map)
  have line: "map (coord_of G) route = cs"
    by (simp add: cs_def)
  show ?thesis
    unfolding line
    using assms(1)
    by (simp add: create_route_map_def rc lats lons len ne first final py_div_len_def
        list.case_eq_if)
qed

lemma create_route_map_empty: "create_route_map G [] start_name end_name = Inl ZeroDivisionError"
  by (simp add: create_route_map_def py_sum_def py_div_len_def)

text \<open>
  Claim C8: for a non-empty route over nodes that carry coordinates, \<open>create_route_map\<close>
  projects each node to its \<open>(lat, lon)\<close>, centres the map at the arithmetic mean of these
  coordinates with zoom 13, draws one blue polyline through them in route order, and puts
  a green marker labelled \<open>Start: \<dots>\<close> on the first and a red marker labelled
  \<open>End: \<dots>\<close> on the last coordinate.
\<close>

theorem create_route_map_renders_route:
  assumes "route \<noteq> []" and "\<forall>n \<in> set route. has_coords G n"
  shows "(\<forall>n \<in> set route. node_coords G n = Inr (coord_of G n))
    \<and> create_route_map G route start_name end_name =
      Inr \<lparr>location = (sum_list (map (lat G) route) / real (length route),
                       sum_list (map (lon G) route) / real (length route)),
           zoom_start = 13,
           children =
             [PolyLine (map (coord_of G) route) ''blue'' 6 0.7,
              Marker (coord_of G (hd route)) (''Start: '' @ start_name) ''green'',
              Marker (coord_of G (last route)) (''End: '' @ end_name) ''red'']\<rparr>"
  using assms create_route_map_ok [OF assms] by (simp add: node_coords_ok)

lemma demo_node_lat:
  "node_lat demo_graph 1 = Some 30.32" "node_lat demo_graph 2 = Some 30.33"
  "node_lat demo_graph 3 = Some 30.34"
  by (simp_all add: node_lat_def demo_graph_def DiGraph_def demo_raw_def)

lemma demo_node_lon:
  "node_lon demo_graph 1 = Some 78.04" "node_lon demo_graph 2 = Some 78.05"
  "node_lon demo_graph 3 = Some 78.06"
  by (simp_all add: node_lon_def demo_graph_def DiGraph_def demo_raw_def)

lemma demo_has_coords: "\<forall>n \<in> set [1, 2, 3]. has_coords demo_graph n"
  by (simp add: has_coords_def demo_node_lat demo_node_lon del: not_None_eq)

lemma demo_lat: "lat demo_graph 1 = 30.32" "lat demo_graph 2 = 30.33" "lat demo_graph 3 = 30.34"
  by (simp_all add: lat_def demo_node_lat)

lemma demo_lon: "lon demo_graph 1 = 78.04" "lon demo_graph 2 = 78.05" "lon demo_graph 3 = 78.06"
  by (simp_all add: lon_def demo_node_lon)

theorem create_route_map_renders_route_witness:
  "[1, 2, 3 :: node] \<noteq> []
   \<and> has_coords demo_graph 1 \<and> has_coords demo_graph 2 \<and> has_coords demo_graph 3
   \<and> create_route_map demo_graph [1, 2, 3] ''Clock Tower'' ''ISBT'' =
      Inr \<lparr>location = (30.33, 78.05),
           zoom_start = 13,
           children =
             [PolyLine [(PyNum 30.32, PyNum 78.04), (PyNum 30.33, PyNum 78.05),
                        (PyNum 30.34, PyNum 78.06)] ''blue'' 6 0.7,
              Marker (PyNum 30.32, PyNum 78.04) ''Start: Clock Tower'' ''green'',
              Marker (PyNum 30.34, PyNum 78.06) ''End: ISBT'' ''red'']\<rparr>"
proof -
  have ne: "[1, 2, 3 :: node] \<noteq> []" by simp
  from create_route_map_renders_route [OF ne demo_has_coords, of "''Clock Tower''" "''ISBT''"]
  show ?thesis
    using demo_has_coords by (simp add: coord_of_def demo_lat demo_lon)
qed

text \<open>
  Claim C10: \<open>create_route_map\<close> is defined only for non-empty routes. On the empty route
  the sum 0 is divided by the length 0, a \<open>ZeroDivisionError\<close>; whenever a map is returned
  the route was not empty; and for every non-empty route over nodes that carry coordinates
  a map is returned, with its centroid, its polyline and its two markers.
\<close>

theorem create_route_map_needs_nonempty_route:
  "create_route_map G [] start_name end_name = Inl ZeroDivisionError
   \<and> py_div_len 0 (length ([] :: coord list)) = Inl ZeroDivisionError
   \<and> ((\<exists>m. create_route_map G route start_name end_name = Inr m) \<longrightarrow> route \<noteq> [])
   \<and> (route \<noteq> [] \<and> (\<forall>n \<in> set route. has_coords G n) \<longrightarrow>
        (\<exists>m line start_marker end_marker.
           create_route_map G route start_name end_name = Inr m
           \<and> location m = (sum_list (map (lat G) route) / real (length route),
                            sum_list (map (lon G) route) / real (length route))
           \<and> children m = [line, start_marker, end_marker]))"
proof (intro conjI impI)
  show "create_route_map G [] start_name end_name = Inl ZeroDivisionError"
    by (rule create_route_map_empty)
  show "py_div_len 0 (length ([] :: coord list)) = Inl ZeroDivisionError"
    by (simp add: py_div_len_def)
  show "route \<noteq> []" if "\<exists>m. create_route_map G route start_name end_name = Inr m"
    using that create_route_map_empty [of G start_name end_name] by auto
  show "\<exists>m line start_marker end_marker.
           create_route_map G route start_name end_name = Inr m
           \<and> location m = (sum_list (map (lat G) route) / real (length route),
                            sum_list (map (lon G) route) / real (length route))
           \<and> children m = [line, start_marker, end_marker]"
    if "route \<noteq> [] \<and> (\<forall>n \<in> set route. has_coords G n)"
    using that create_route_map_ok [of route G start_name end_name] by simp
qed

theorem create_route_map_needs_nonempty_route_witness:
  "create_route_map demo_graph [] ''Clock Tower'' ''ISBT'' = Inl ZeroDivisionError
   \<and> (\<exists>m. create_route_map demo_graph [1, 2, 3] ''Clock Tower'' ''ISBT'' = Inr m)"
proof -
  have h: "[1, 2, 3 :: node] \<noteq> [] \<and> (\<forall>n \<in> set [1, 2, 3]. has_coords demo_graph n)"
    using demo_has_coords by simp
  from create_route_map_needs_nonempty_route
    [of demo_graph "''Clock Tower''" "''ISBT''" "[1, 2, 3]"] h
  show ?thesis by blast
qed

end
